theory Spec2Isabelle
  imports Main
begin

section \<open>Data model\<close>

text \<open>
  The M-Pesa B2C connector talks to three external collaborators: the document store of
  the web framework (tables of access tokens, integration requests and error-log entries),
  the HTTP client, and the system clock. The store is kept in an explicit \<open>world\<close>
  state that every operation takes and returns; what the HTTP client and the store answer
  is read from an \<open>environment\<close> record, so that each answer the source can receive
  is a branch of the model. Every \<^verbatim>\<open>raise\<close> of the source is an \<open>Inl\<close>
  result.
\<close>

datatype json =
    JNull
  | JBool bool
  | JNum int
  | JStr string
  | JArr "json list"
  | JObj "(string \<times> json) list"

text \<open>The exception classes that \<^verbatim>\<open>frappe.throw\<close> is called with.\<close>

datatype exc_class = ValidationError | DataError

text \<open>
  Exceptions. \<open>FrappeThrow msg cls title\<close> is \<^verbatim>\<open>frappe.throw(msg, cls, title=title)\<close>
  (\<open>ValidationError\<close> is the default class of \<^verbatim>\<open>frappe.throw\<close>);
  \<open>DoesNotExistError\<close> is what \<^verbatim>\<open>frappe.get_doc\<close> raises on a missing name and
  \<open>DuplicateEntryError\<close> what an insert under a taken name raises;
  \<open>HTTPError\<close> and \<open>ConnectionError\<close> are the two classes of the HTTP library that
  \<^verbatim>\<open>make_b2c_payment_request\<close> catches, \<open>OtherRequestException\<close> any exception of
  the HTTP library outside these two classes (a read timeout, too many redirects);
  \<open>JSONDecodeError\<close> is \<^verbatim>\<open>response.json()\<close> failing, \<open>LookupOrValueError\<close> a
  missing key or a failing \<^verbatim>\<open>int(...)\<close>, and \<open>UnboundLocalError\<close> the read of a
  local variable that was never assigned. The string of the HTTP exceptions is the message
  the HTTP library gave them.
\<close>

datatype exn =
    FrappeThrow string exc_class "string option"
  | DoesNotExistError
  | DuplicateEntryError
  | HTTPError string
  | ConnectionError string
  | OtherRequestException string
  | JSONDecodeError
  | LookupOrValueError
  | UnboundLocalError

text \<open>
  The connector's \<^verbatim>\<open>error\<close> field is declared \<^verbatim>\<open>str | Exception | None\<close>:
  \<open>None\<close> is \<open>None\<close>, a string is \<open>Some (ErrStr s)\<close>, an exception \<open>Some (ErrExc e)\<close>.
\<close>

datatype err_val = ErrStr string | ErrExc exn

fun exn_message :: "exn \<Rightarrow> string" where
  "exn_message (FrappeThrow msg cls title) = msg"
| "exn_message DoesNotExistError = ''DoesNotExistError''"
| "exn_message DuplicateEntryError = ''DuplicateEntryError''"
| "exn_message (HTTPError msg) = msg"
| "exn_message (ConnectionError msg) = msg"
| "exn_message (OtherRequestException msg) = msg"
| "exn_message JSONDecodeError = ''JSONDecodeError''"
| "exn_message LookupOrValueError = ''LookupOrValueError''"
| "exn_message UnboundLocalError = ''UnboundLocalError''"

text \<open>\<^verbatim>\<open>str(error)\<close>: a string is itself, an exception gives its message.\<close>

fun py_str :: "err_val \<Rightarrow> string" where
  "py_str (ErrStr s) = s"
| "py_str (ErrExc e) = exn_message e"

text \<open>
  Python's truth value of the \<^verbatim>\<open>error\<close> field, as \<^verbatim>\<open>if notifier.error:\<close>
  tests it: \<^verbatim>\<open>None\<close> and the empty string are false, every other string and every
  exception object is true.
\<close>

fun truthy :: "err_val option \<Rightarrow> bool" where
  "truthy None = False"
| "truthy (Some (ErrStr s)) = (s \<noteq> [])"
| "truthy (Some (ErrExc e)) = True"

text \<open>
  A document of the access-token table, with the four fields \<^verbatim>\<open>save_access_token\<close>
  writes. Times are integers, in microseconds (the resolution of \<^verbatim>\<open>datetime\<close>).
\<close>

record access_token_doc =
  associated_settings :: string
  access_token :: string
  expiry_time :: int
  token_fetch_time :: int

datatype request_status = Pending | Completed | Failed

text \<open>
  The result envelope a callback carries (\<^verbatim>\<open>kwargs["Result"]\<close>): the three fields the
  handler reads (the result code is an integer, as the provider sends it), and whatever
  else the provider sent.
\<close>

record result_envelope =
  ResultCode :: int
  ResultDesc :: string
  OriginatorConversationID :: string
  result_parameters :: "(string \<times> json) list"

text \<open>
  An Integration Request document: what \<^verbatim>\<open>create_request_log\<close> is given, and the
  three fields \<^verbatim>\<open>update_integration_request\<close> writes. The only output the source ever
  stores is a callback's envelope.
\<close>

record integration_request_doc =
  url :: string
  data :: string
  request_headers :: "(string \<times> string) list"
  integration_request_service :: string
  is_remote_request :: int
  req_status :: request_status
  req_output :: "result_envelope option"
  req_error :: "string option"

text \<open>
  The calls to the outside that the claims count: an HTTP GET with Basic authentication, the
  creation of a request log, an HTTP POST.
\<close>

datatype event =
    HttpGet string "string option" "string option"
  | RequestLogCreated string
  | HttpPost string string "(string \<times> string) list"

text \<open>
  The world: the token table (in the order the store enumerates it, newest first), the
  integration requests by name, the error log (title and the logged error), the calls made
  so far, and the clock: \<open>clock w n\<close> is what the \<open>n\<close>-th call of
  \<^verbatim>\<open>datetime.now()\<close> returns, \<open>clock_reads w\<close> how many calls were made.
\<close>

record world =
  tokens :: "access_token_doc list"
  requests :: "string \<rightharpoonup> integration_request_doc"
  error_log :: "(string \<times> err_val) list"
  trace :: "event list"
  clock :: "nat \<Rightarrow> int"
  clock_reads :: nat

text \<open>
  An observer is the built-in \<^verbatim>\<open>ErrorObserver\<close> or any other implementation of the
  abstract \<^verbatim>\<open>Observer.update\<close>, given by what it does with the notifier's
  \<^verbatim>\<open>error\<close> and \<^verbatim>\<open>integration_request\<close> fields and the world.
\<close>

datatype observer =
    ErrorObserver
  | OtherObserver "err_val option \<Rightarrow> string option \<Rightarrow> world \<Rightarrow> (exn + unit) \<times> world"

text \<open>The fields of \<^verbatim>\<open>ConnectorBaseClass\<close> and \<^verbatim>\<open>MpesaB2CConnector\<close>.\<close>

record connector =
  error :: "err_val option"
  integration_request :: "string option"
  observers :: "observer list"
  authentication_token :: "string option"
  expires_in :: "int option"
  env :: string
  app_key :: "string option"
  app_secret :: "string option"
  base_url :: string

text \<open>
  Modelled from the spec: \<^verbatim>\<open>B2CRequestDefinition\<close> (utils/definitions.py is not among
  the sources). The connector reads four of its fields; the rest of the disbursement
  instruction is kept as it was supplied. Its serialiser \<^verbatim>\<open>to_json\<close> is a parameter
  (see \<open>environment\<close>).
\<close>

record b2c_request =
  Setting :: string
  ConsumerKey :: string
  ConsumerSecret :: string
  b2c_OriginatorConversationID :: string
  b2c_fields :: "(string \<times> json) list"

text \<open>
  What the token endpoint's body gives to the three reads of \<^verbatim>\<open>authenticate\<close>, which
  happen in this order: \<^verbatim>\<open>r.json()\<close>, \<^verbatim>\<open>response["access_token"]\<close>,
  \<^verbatim>\<open>int(response["expires_in"])\<close>. \<open>BodyNotJson\<close>: the first raises;
  \<open>BodyNoToken\<close>: the second raises; \<open>BodyBadExpiry tok\<close>: the token is read and the
  third raises; \<open>Body tok n\<close>: all three succeed.
\<close>

datatype auth_body =
    BodyNotJson
  | BodyNoToken
  | BodyBadExpiry string
  | Body string int

text \<open>
  What \<^verbatim>\<open>requests.get\<close> gives: a response (status code and body) or an exception.
  What \<^verbatim>\<open>requests.post\<close> gives: a response (status code, the message
  \<^verbatim>\<open>raise_for_status\<close> would raise with, the body parsed as JSON if it parses), a
  \<^verbatim>\<open>requests.ConnectionError\<close>, or another exception of the library.
\<close>

datatype get_outcome = GetResponse int auth_body | GetRaises exn

datatype post_outcome =
    PostResponse int string "json option"
  | PostConnectionError string
  | PostOtherException string

text \<open>
  The answers of the outside during one call: the two HTTP outcomes, whether the store
  accepts the new token document, the host name of the current site
  (\<^verbatim>\<open>urlparse(...).hostname\<close>, which may be \<^verbatim>\<open>None\<close>), and the serialiser of
  the request.
\<close>

record environment =
  auth_response :: get_outcome
  payment_response :: post_outcome
  save_succeeds :: bool
  site_hostname :: "string option"
  to_json :: "b2c_request \<Rightarrow> (string \<times> string) list \<Rightarrow> string"

text \<open>The dictionary \<^verbatim>\<open>authenticate\<close> returns.\<close>

record auth_result =
  res_access_token :: string
  res_expires_in :: int
  res_fetched_time :: int

section \<open>Clock\<close>

definition now :: "world \<Rightarrow> int \<times> world" where
  "now w = (clock w (clock_reads w), w\<lparr>clock_reads := Suc (clock_reads w)\<rparr>)"

definition timedelta_seconds :: "int \<Rightarrow> int" where
  "timedelta_seconds n = n * 1000000"

section \<open>utils/helpers.py\<close>

text \<open>
  \<^verbatim>\<open>update_integration_request\<close>: \<^verbatim>\<open>frappe.get_doc\<close> raises when no document has
  the name (the observer may pass \<^verbatim>\<open>None\<close>, which names no document); otherwise the
  three fields are assigned and the document saved.
\<close>

definition update_integration_request ::
  "string option \<Rightarrow> request_status \<Rightarrow> result_envelope option \<Rightarrow> string option \<Rightarrow> world
     \<Rightarrow> (exn + unit) \<times> world" where
  "update_integration_request name st out err w =
     (case name of
        None \<Rightarrow> (Inl DoesNotExistError, w)
      | Some n \<Rightarrow>
          (case requests w n of
             None \<Rightarrow> (Inl DoesNotExistError, w)
           | Some doc \<Rightarrow>
               (Inr (), w\<lparr>requests := (requests w)(n \<mapsto> doc\<lparr>req_status := st, req_error := err, req_output := out\<rparr>)\<rparr>)))"

text \<open>
  \<^verbatim>\<open>save_access_token\<close>: a new document with the four fields; when saving or submitting
  it raises, the handler throws \<^verbatim>\<open>"Error Encountered"\<close> and nothing is stored.
\<close>

definition save_access_token ::
  "bool \<Rightarrow> string \<Rightarrow> int \<Rightarrow> int \<Rightarrow> string \<Rightarrow> world \<Rightarrow> (exn + bool) \<times> world" where
  "save_access_token store_ok token expiry fetch associated_setting w =
     (let doc = \<lparr>associated_settings = associated_setting, access_token = token,
                 expiry_time = expiry, token_fetch_time = fetch\<rparr>
      in if store_ok then (Inr True, w\<lparr>tokens := doc # tokens w\<rparr>)
         else (Inl (FrappeThrow ''Error Encountered'' ValidationError None), w))"

text \<open>
  Modelled from the spec: \<^verbatim>\<open>create_request_log\<close> of the framework, which is not among
  the sources: it creates the record under the given name with status Pending, storing URL,
  payload and headers. A name already taken is refused by the store.
\<close>

definition create_request_log ::
  "string \<Rightarrow> int \<Rightarrow> string \<Rightarrow> string \<Rightarrow> string \<Rightarrow> (string \<times> string) list \<Rightarrow> world
     \<Rightarrow> (exn + string) \<times> world" where
  "create_request_log u remote payload service name headers w =
     (case requests w name of
        Some _ \<Rightarrow> (Inl DuplicateEntryError, w)
      | None \<Rightarrow>
          (Inr name,
           w\<lparr>requests := (requests w)(name \<mapsto>
                 \<lparr>url = u, data = payload, request_headers = headers,
                  integration_request_service = service, is_remote_request = remote,
                  req_status = Pending, req_output = None, req_error = None\<rparr>),
             trace := trace w @ [RequestLogCreated name]\<rparr>))"

section \<open>scripts/server/base_classes.py\<close>

definition attach :: "observer \<Rightarrow> connector \<Rightarrow> connector" where
  "attach ob c = c\<lparr>observers := observers c @ [ob]\<rparr>"

text \<open>
  \<^verbatim>\<open>Observer.update\<close>. The \<^verbatim>\<open>ErrorObserver\<close> tests the truth value of the error,
  logs it, marks the integration request Failed (an exception of that call leaves the
  method there) and throws.
\<close>

fun update :: "observer \<Rightarrow> err_val option \<Rightarrow> string option \<Rightarrow> world \<Rightarrow> (exn + unit) \<times> world" where
  "update ErrorObserver None ir w = (Inr (), w)"
| "update ErrorObserver (Some e) ir w =
     (if truthy (Some e) then
        (let w1 = w\<lparr>error_log := error_log w @ [(''HTTPError'', e)]\<rparr>
         in case update_integration_request ir Failed None (Some (py_str e)) w1 of
              (Inl x, w2) \<Rightarrow> (Inl x, w2)
            | (Inr _, w2) \<Rightarrow> (Inl (FrappeThrow (py_str e) DataError (Some ''HTTPError'')), w2))
      else (Inr (), w))"
| "update (OtherObserver f) err ir w = f err ir w"

text \<open>The loop of \<^verbatim>\<open>notify\<close>: an exception of one observer ends it.\<close>

fun notify_observers ::
  "observer list \<Rightarrow> err_val option \<Rightarrow> string option \<Rightarrow> world \<Rightarrow> (exn + unit) \<times> world" where
  "notify_observers [] err ir w = (Inr (), w)"
| "notify_observers (ob # obs) err ir w =
     (case update ob err ir w of
        (Inl x, w1) \<Rightarrow> (Inl x, w1)
      | (Inr _, w1) \<Rightarrow> notify_observers obs err ir w1)"

definition notify :: "connector \<Rightarrow> world \<Rightarrow> (exn + unit) \<times> world" where
  "notify c w = notify_observers (observers c) (error c) (integration_request c) w"

section \<open>scripts/server/mpesa_connector.py\<close>

definition SANDBOX :: string where
  "SANDBOX = ''https://sandbox.safaricom.co.ke''"

definition PRODUCTION :: string where
  "PRODUCTION = ''https://api.safaricom.co.ke''"

definition MpesaB2CConnector_init :: "string \<Rightarrow> string option \<Rightarrow> string option \<Rightarrow> connector" where
  "MpesaB2CConnector_init e key secret =
     attach ErrorObserver
       \<lparr>error = None, integration_request = None, observers = [],
        authentication_token = None, expires_in = None,
        env = e, app_key = key, app_secret = secret,
        base_url = (if e = ''sandbox'' then SANDBOX else PRODUCTION)\<rparr>"

definition authenticate_url :: "connector \<Rightarrow> string" where
  "authenticate_url c = base_url c @ ''/oauth/v1/generate?grant_type=client_credentials''"

definition authenticate ::
  "environment \<Rightarrow> string \<Rightarrow> connector \<Rightarrow> world \<Rightarrow> (exn + auth_result) \<times> connector \<times> world" where
  "authenticate ev setting c w =
     (let w0 = w\<lparr>trace := trace w @ [HttpGet (authenticate_url c) (app_key c) (app_secret c)]\<rparr>
      in case auth_response ev of
           GetRaises x \<Rightarrow> (Inl x, c, w0)
         | GetResponse status_code body \<Rightarrow>
             if status_code < 400 then
               (case body of
                  BodyNotJson \<Rightarrow> (Inl JSONDecodeError, c, w0)
                | BodyNoToken \<Rightarrow> (Inl LookupOrValueError, c, w0)
                | BodyBadExpiry tok \<Rightarrow>
                    (let c1 = c\<lparr>authentication_token := Some tok\<rparr>;
                         (t1, w1) = now w0
                     in (Inl LookupOrValueError, c1, w1))
                | Body tok secs \<Rightarrow>
                    (let c1 = c\<lparr>authentication_token := Some tok\<rparr>;
                         (t1, w1) = now w0;
                         expires = t1 + timedelta_seconds secs;
                         c2 = c1\<lparr>expires_in := Some expires\<rparr>;
                         (fetch_time, w2) = now w1
                     in case save_access_token (save_succeeds ev) tok expires fetch_time setting w2 of
                          (Inl x, w3) \<Rightarrow> (Inl x, c2, w3)
                        | (Inr _, w3) \<Rightarrow>
                            (Inr \<lparr>res_access_token = tok, res_expires_in = expires,
                                  res_fetched_time = fetch_time\<rparr>, c2, w3)))
             else
               (Inl (FrappeThrow
                      (''Can't get token with provided Credentials for setting: <b>'' @ setting @ ''</b>'')
                      ValidationError (Some ''Error'')), c, w0))"

text \<open>
  Lines 114 to 138 of \<^verbatim>\<open>make_b2c_payment_request\<close>: the lookup of a token of the
  setting whose expiry time is later than the clock's reading (the first one the store
  enumerates), and, when there is none, the authentication with the request's credentials.
  The decrypted password of the document found is its \<open>access_token\<close> field.
\<close>

definition valid_token :: "string \<Rightarrow> int \<Rightarrow> access_token_doc \<Rightarrow> bool" where
  "valid_token setting t d \<longleftrightarrow> associated_settings d = setting \<and> expiry_time d > t"

definition obtain_token ::
  "environment \<Rightarrow> b2c_request \<Rightarrow> connector \<Rightarrow> world \<Rightarrow> (exn + unit) \<times> connector \<times> world" where
  "obtain_token ev request_data c w =
     (let (t, w1) = now w
      in case find (valid_token (Setting request_data) t) (tokens w1) of
           None \<Rightarrow>
             (let c1 = c\<lparr>app_key := Some (ConsumerKey request_data),
                         app_secret := Some (ConsumerSecret request_data)\<rparr>
              in case authenticate ev (Setting request_data) c1 w1 of
                   (Inl x, c2, w2) \<Rightarrow> (Inl x, c2, w2)
                 | (Inr r, c2, w2) \<Rightarrow>
                     (Inr (), c2\<lparr>authentication_token := Some (res_access_token r)\<rparr>, w2))
         | Some d \<Rightarrow> (Inr (), c\<lparr>authentication_token := Some (access_token d)\<rparr>, w1))"

text \<open>An f-string prints \<^verbatim>\<open>None\<close> as the text "None".\<close>

definition format_opt :: "string option \<Rightarrow> string" where
  "format_opt x = (case x of None \<Rightarrow> ''None'' | Some s \<Rightarrow> s)"

definition saf_url :: "connector \<Rightarrow> string" where
  "saf_url c = base_url c @ ''/mpesa/b2c/v3/paymentrequest''"

definition callback_url :: "environment \<Rightarrow> string" where
  "callback_url ev = ''https://'' @ format_opt (site_hostname ev) @
     ''/api/method/navari_mpesa_b2c.mpesa_b2c.scripts.server.mpesa_connector.results_callback_url''"

definition payload_of :: "environment \<Rightarrow> b2c_request \<Rightarrow> string" where
  "payload_of ev request_data =
     to_json ev request_data
       [(''QueueTimeOutURL'', callback_url ev), (''ResultURL'', callback_url ev)]"

definition headers_of :: "connector \<Rightarrow> (string \<times> string) list" where
  "headers_of c =
     [(''Authorization'', ''Bearer '' @ format_opt (authentication_token c)),
      (''Content-Type'', ''application/json'')]"

text \<open>
  Lines 164 to 178: the POST inside \<^verbatim>\<open>try\<close>, \<^verbatim>\<open>raise_for_status\<close> (which raises
  for a status from 400 to 599), the handler of the two caught classes, and the final
  \<^verbatim>\<open>return response.json()\<close>, which is also reached when \<^verbatim>\<open>notify\<close> returns.
\<close>

definition post_payment ::
  "environment \<Rightarrow> string \<Rightarrow> string \<Rightarrow> (string \<times> string) list \<Rightarrow> connector \<Rightarrow> world
     \<Rightarrow> (exn + json) \<times> connector \<times> world" where
  "post_payment ev u payload headers c w =
     (let w1 = w\<lparr>trace := trace w @ [HttpPost u payload headers]\<rparr>
      in case payment_response ev of
           PostOtherException m \<Rightarrow> (Inl (OtherRequestException m), c, w1)
         | PostConnectionError m \<Rightarrow>
             (let c1 = c\<lparr>error := Some (ErrExc (ConnectionError m))\<rparr>
              in case notify c1 w1 of
                   (Inl x, w2) \<Rightarrow> (Inl x, c1, w2)
                 | (Inr _, w2) \<Rightarrow> (Inl UnboundLocalError, c1, w2))
         | PostResponse status_code msg body \<Rightarrow>
             if 400 \<le> status_code \<and> status_code < 600 then
               (let c1 = c\<lparr>error := Some (ErrExc (HTTPError msg))\<rparr>
                in case notify c1 w1 of
                     (Inl x, w2) \<Rightarrow> (Inl x, c1, w2)
                   | (Inr _, w2) \<Rightarrow>
                       (case body of
                          None \<Rightarrow> (Inl JSONDecodeError, c1, w2)
                        | Some j \<Rightarrow> (Inr j, c1, w2)))
             else
               (case body of
                  None \<Rightarrow> (Inl JSONDecodeError, c, w1)
                | Some j \<Rightarrow> (Inr j, c, w1)))"

definition make_b2c_payment_request ::
  "environment \<Rightarrow> b2c_request \<Rightarrow> connector \<Rightarrow> world \<Rightarrow> (exn + json) \<times> connector \<times> world" where
  "make_b2c_payment_request ev request_data c w =
     (case obtain_token ev request_data c w of
        (Inl x, c1, w1) \<Rightarrow> (Inl x, c1, w1)
      | (Inr _, c1, w1) \<Rightarrow>
          (let payload = payload_of ev request_data;
               headers = headers_of c1
           in case create_request_log (saf_url c1) 1 payload ''Mpesa''
                     (b2c_OriginatorConversationID request_data) headers w1 of
                (Inl x, w2) \<Rightarrow> (Inl x, c1, w2)
              | (Inr name, w2) \<Rightarrow>
                  post_payment ev (saf_url c1) payload headers
                    (c1\<lparr>integration_request := Some name\<rparr>) w2))"

section \<open>The callback handler\<close>

definition results_callback_url :: "result_envelope \<Rightarrow> world \<Rightarrow> (exn + unit) \<times> world" where
  "results_callback_url result w =
     (if ResultCode result \<noteq> 0
      then update_integration_request (Some (OriginatorConversationID result)) Failed
             (Some result) (Some (ResultDesc result)) w
      else (Inr (), w))"

section \<open>Sequences of public operations\<close>

text \<open>
  The public operations of a connector. An operation that raises leaves the connector and
  the world as they were when it raised, and the caller may go on using the connector.
\<close>

datatype operation =
    Attach observer
  | Notify
  | Authenticate environment string
  | MakeB2CPaymentRequest environment b2c_request

fun perform :: "operation \<Rightarrow> connector \<times> world \<Rightarrow> connector \<times> world" where
  "perform (Attach ob) (c, w) = (attach ob c, w)"
| "perform Notify (c, w) = (c, snd (notify c w))"
| "perform (Authenticate ev setting) (c, w) = snd (authenticate ev setting c w)"
| "perform (MakeB2CPaymentRequest ev request_data) (c, w) =
     snd (make_b2c_payment_request ev request_data c w)"

fun perform_all :: "operation list \<Rightarrow> connector \<times> world \<Rightarrow> connector \<times> world" where
  "perform_all [] s = s"
| "perform_all (x # xs) s = perform_all xs (perform x s)"

section \<open>Concrete inputs\<close>

text \<open>
  A world with nothing stored whose clock advances by one microsecond at each reading; a
  Pending record named X; the envelopes, request and answers of the scenarios of the
  specification.
\<close>

definition fresh_world :: world where
  "fresh_world = \<lparr>tokens = [], requests = Map.empty, error_log = [], trace = [],
                   clock = (\<lambda>n. int n), clock_reads = 0\<rparr>"

definition pending_doc :: integration_request_doc where
  "pending_doc = \<lparr>url = ''https://sandbox.safaricom.co.ke/mpesa/b2c/v3/paymentrequest'',
                   data = ''{}'', request_headers = [],
                   integration_request_service = ''Mpesa'', is_remote_request = 1,
                   req_status = Pending, req_output = None, req_error = None\<rparr>"

definition pending_world :: world where
  "pending_world = fresh_world\<lparr>requests := [''X'' \<mapsto> pending_doc]\<rparr>"

definition insufficient_funds :: result_envelope where
  "insufficient_funds = \<lparr>ResultCode = 1, ResultDesc = ''Insufficient funds'',
                          OriginatorConversationID = ''X'', result_parameters = []\<rparr>"

definition processed :: result_envelope where
  "processed = \<lparr>ResultCode = 0, ResultDesc = ''Processed'',
                 OriginatorConversationID = ''X'', result_parameters = []\<rparr>"

definition example_request :: b2c_request where
  "example_request = \<lparr>Setting = ''S'', ConsumerKey = ''key'', ConsumerSecret = ''secret'',
                       b2c_OriginatorConversationID = ''X'', b2c_fields = []\<rparr>"

definition env_success :: environment where
  "env_success = \<lparr>auth_response = GetResponse 200 (Body ''abc'' 3600),
                   payment_response = PostResponse 200 ''OK'' (Some (JObj [(''ConversationID'', JStr ''X'')])),
                   save_succeeds = True, site_hostname = Some ''example.com'',
                   to_json = (\<lambda>r extra. b2c_OriginatorConversationID r)\<rparr>"

definition env_http500 :: environment where
  "env_http500 = env_success\<lparr>payment_response := PostResponse 500 ''500 Server Error'' None\<rparr>"

definition env_read_timeout :: environment where
  "env_read_timeout = env_success\<lparr>payment_response := PostOtherException ''Read timed out''\<rparr>"

definition env_auth_denied :: environment where
  "env_auth_denied = env_success\<lparr>auth_response := GetResponse 401 BodyNotJson\<rparr>"

definition sandbox_connector :: connector where
  "sandbox_connector = MpesaB2CConnector_init ''sandbox'' None None"

definition cached_world :: world where
  "cached_world = fresh_world\<lparr>tokens := [\<lparr>associated_settings = ''S'', access_token = ''cached'',
                                          expiry_time = 1000, token_fetch_time = 0\<rparr>]\<rparr>"

definition empty_error_connector :: connector where
  "empty_error_connector =
     sandbox_connector\<lparr>error := Some (ErrStr []), integration_request := Some ''X''\<rparr>"

definition failed_connector :: connector where
  "failed_connector =
     sandbox_connector\<lparr>error := Some (ErrExc (ConnectionError ''refused'')),
                       integration_request := Some ''X''\<rparr>"

definition timed_out :: result_envelope where
  "timed_out = \<lparr>ResultCode = 2, ResultDesc = ''Timed out'',
                 OriginatorConversationID = ''X'', result_parameters = []\<rparr>"

definition stored_output_world :: world where
  "stored_output_world =
     pending_world\<lparr>requests := [''X'' \<mapsto>
        pending_doc\<lparr>req_status := Failed, req_error := Some ''Insufficient funds'',
                    req_output := Some insufficient_funds\<rparr>]\<rparr>"

section \<open>Lemmas on the helpers and the observer\<close>

lemma update_integration_request_found:
  "requests w n = Some doc \<Longrightarrow>
   update_integration_request (Some n) st out err w =
     (Inr (), w\<lparr>requests := (requests w)(n \<mapsto> doc\<lparr>req_status := st, req_error := err, req_output := out\<rparr>)\<rparr>)"
  by (simp add: update_integration_request_def)

lemma update_ErrorObserver_truthy:
  "truthy (Some e) \<Longrightarrow> requests w n = Some doc \<Longrightarrow>
   update ErrorObserver (Some e) (Some n) w =
     (Inl (FrappeThrow (py_str e) DataError (Some ''HTTPError'')),
      w\<lparr>error_log := error_log w @ [(''HTTPError'', e)],
        requests := (requests w)(n \<mapsto> doc\<lparr>req_status := Failed, req_error := Some (py_str e), req_output := None\<rparr>)\<rparr>)"
  by (simp add: update_integration_request_def)

lemma update_ErrorObserver_falsy:
  "\<not> truthy err \<Longrightarrow> update ErrorObserver err ir w = (Inr (), w)"
  by (cases err) simp_all

lemma update_ErrorObserver_raises:
  "truthy err \<Longrightarrow> \<exists>x w1. update ErrorObserver err ir w = (Inl x, w1)"
  by (cases err) (auto simp: update_integration_request_def Let_def split: option.splits)

lemma update_ErrorObserver_trace:
  "update ErrorObserver err ir w = (r, w') \<Longrightarrow> trace w' = trace w"
  by (cases err)
     (auto simp: update_integration_request_def Let_def split: option.splits if_splits)

lemma notify_observers_falsy:
  "\<not> truthy err \<Longrightarrow> set obs \<subseteq> {ErrorObserver} \<Longrightarrow> notify_observers obs err ir w = (Inr (), w)"
  by (induction obs) (simp_all add: update_ErrorObserver_falsy)

lemma notify_observers_append:
  "notify_observers (xs @ ys) err ir w =
     (case notify_observers xs err ir w of
        (Inl x, w1) \<Rightarrow> (Inl x, w1)
      | (Inr _, w1) \<Rightarrow> notify_observers ys err ir w1)"
  by (induction xs arbitrary: w) (auto split: prod.splits sum.splits)

lemma notify_observers_trace:
  "set obs \<subseteq> {ErrorObserver} \<Longrightarrow> notify_observers obs err ir w = (r, w') \<Longrightarrow> trace w' = trace w"
proof (induction obs arbitrary: w)
  case Nil
  then show ?case by simp
next
  case (Cons ob obs)
  then have ob: "ob = ErrorObserver" by simp
  obtain r1 w1 where u: "update ErrorObserver err ir w = (r1, w1)"
    by (cases "update ErrorObserver err ir w")
  then have t: "trace w1 = trace w" by (rule update_ErrorObserver_trace)
  show ?case
  proof (cases r1)
    case (Inl x)
    with Cons.prems u ob t show ?thesis by simp
  next
    case (Inr y)
    with Cons.prems u ob have "notify_observers obs err ir w1 = (r, w')" by simp
    with Cons.IH Cons.prems(1) t show ?thesis by simp
  qed
qed

lemma notify_head_ErrorObserver:
  "observers c = ErrorObserver # rest \<Longrightarrow> error c = Some e \<Longrightarrow> truthy (Some e) \<Longrightarrow>
   integration_request c = Some n \<Longrightarrow> requests w n = Some doc \<Longrightarrow>
   notify c w =
     (Inl (FrappeThrow (py_str e) DataError (Some ''HTTPError'')),
      w\<lparr>error_log := error_log w @ [(''HTTPError'', e)],
        requests := (requests w)(n \<mapsto> doc\<lparr>req_status := Failed, req_error := Some (py_str e), req_output := None\<rparr>)\<rparr>)"
  by (simp add: notify_def update_ErrorObserver_truthy del: update.simps)

section \<open>Lemmas on authentication and the token lookup\<close>

lemma authenticate_status_error:
  "auth_response ev = GetResponse status_code body \<Longrightarrow> 400 \<le> status_code \<Longrightarrow>
   authenticate ev setting c w =
     (Inl (FrappeThrow (''Can't get token with provided Credentials for setting: <b>'' @ setting @ ''</b>'')
            ValidationError (Some ''Error'')),
      c, w\<lparr>trace := trace w @ [HttpGet (authenticate_url c) (app_key c) (app_secret c)]\<rparr>)"
  by (simp add: authenticate_def)


lemma authenticate_frame:
  "authenticate ev setting c w = (r, c', w') \<Longrightarrow>
     trace w' = trace w @ [HttpGet (authenticate_url c) (app_key c) (app_secret c)]
   \<and> requests w' = requests w \<and> error_log w' = error_log w \<and> clock w' = clock w
   \<and> observers c' = observers c \<and> base_url c' = base_url c
   \<and> error c' = error c \<and> integration_request c' = integration_request c"
  by (auto simp: authenticate_def now_def save_access_token_def Let_def
           split: get_outcome.splits auth_body.splits if_splits)

lemma obtain_token_frame:
  "obtain_token ev rd c w = (r, c', w') \<Longrightarrow>
     requests w' = requests w \<and> error_log w' = error_log w \<and> clock w' = clock w
   \<and> observers c' = observers c \<and> base_url c' = base_url c
   \<and> error c' = error c \<and> integration_request c' = integration_request c"
  by (auto simp: obtain_token_def now_def Let_def
           split: option.splits prod.splits sum.splits dest!: authenticate_frame)

lemma obtain_token_cached:
  "find (valid_token (Setting rd) (clock w (clock_reads w))) (tokens w) = Some d \<Longrightarrow>
   obtain_token ev rd c w =
     (Inr (), c\<lparr>authentication_token := Some (access_token d)\<rparr>,
      w\<lparr>clock_reads := Suc (clock_reads w)\<rparr>)"
  by (simp add: obtain_token_def now_def)

lemma obtain_token_fetch:
  "find (valid_token (Setting rd) (clock w (clock_reads w))) (tokens w) = None \<Longrightarrow>
   obtain_token ev rd c w = (r, c', w') \<Longrightarrow>
   trace w' = trace w @ [HttpGet (authenticate_url c) (Some (ConsumerKey rd)) (Some (ConsumerSecret rd))]"
  by (auto simp: obtain_token_def now_def Let_def authenticate_url_def
           split: prod.splits sum.splits dest!: authenticate_frame)

section \<open>Lemmas on the payment submission\<close>

lemma post_payment_trace:
  "set (observers c) \<subseteq> {ErrorObserver} \<Longrightarrow> post_payment ev u p h c w = (r, c', w') \<Longrightarrow>
   trace w' = trace w @ [HttpPost u p h]"
  by (auto simp: post_payment_def notify_def Let_def
           split: post_outcome.splits prod.splits sum.splits option.splits if_splits
           dest!: notify_observers_trace)

lemma post_payment_frame:
  "post_payment ev u p h c w = (r, c', w') \<Longrightarrow>
     observers c' = observers c \<and> authentication_token c' = authentication_token c
   \<and> integration_request c' = integration_request c \<and> base_url c' = base_url c"
  by (auto simp: post_payment_def Let_def
           split: post_outcome.splits prod.splits sum.splits option.splits if_splits)

lemma post_payment_failure:
  assumes obs: "observers c = ErrorObserver # rest"
    and ir: "integration_request c = Some n" and doc: "requests w n = Some doc"
    and fail: "payment_response ev = PostConnectionError m \<and> e = ConnectionError m
             \<or> (\<exists>st body. payment_response ev = PostResponse st m body \<and> 400 \<le> st \<and> st < 600 \<and> e = HTTPError m)"
  shows "post_payment ev u p h c w =
     (Inl (FrappeThrow m DataError (Some ''HTTPError'')),
      c\<lparr>error := Some (ErrExc e)\<rparr>,
      w\<lparr>trace := trace w @ [HttpPost u p h],
        error_log := error_log w @ [(''HTTPError'', ErrExc e)],
        requests := (requests w)(n \<mapsto> doc\<lparr>req_status := Failed, req_error := Some m, req_output := None\<rparr>)\<rparr>)"
proof -
  let ?c1 = "c\<lparr>error := Some (ErrExc e)\<rparr>"
  let ?w1 = "w\<lparr>trace := trace w @ [HttpPost u p h]\<rparr>"
  have n: "notify ?c1 ?w1 =
     (Inl (FrappeThrow (py_str (ErrExc e)) DataError (Some ''HTTPError'')),
      ?w1\<lparr>error_log := error_log ?w1 @ [(''HTTPError'', ErrExc e)],
        requests := (requests ?w1)(n \<mapsto> doc\<lparr>req_status := Failed, req_error := Some (py_str (ErrExc e)), req_output := None\<rparr>)\<rparr>)"
    by (rule notify_head_ErrorObserver[where rest = rest]) (simp_all add: obs ir doc)
  from fail show ?thesis
  proof
    assume a: "payment_response ev = PostConnectionError m \<and> e = ConnectionError m"
    with n show ?thesis by (simp add: post_payment_def)
  next
    assume "\<exists>st body. payment_response ev = PostResponse st m body \<and> 400 \<le> st \<and> st < 600 \<and> e = HTTPError m"
    then obtain st body where
      a: "payment_response ev = PostResponse st m body" "400 \<le> st" "st < 600" "e = HTTPError m"
      by blast
    with n show ?thesis by (simp add: post_payment_def)
  qed
qed

lemma post_payment_success:
  "payment_response ev = PostResponse st msg (Some body) \<Longrightarrow> \<not> (400 \<le> st \<and> st < 600) \<Longrightarrow>
   post_payment ev u p h c w = (Inr body, c, w\<lparr>trace := trace w @ [HttpPost u p h]\<rparr>)"
  by (auto simp: post_payment_def)

lemma post_payment_uncaught:
  "payment_response ev = PostOtherException m \<Longrightarrow>
   post_payment ev u p h c w =
     (Inl (OtherRequestException m), c, w\<lparr>trace := trace w @ [HttpPost u p h]\<rparr>)"
  by (simp add: post_payment_def)

lemma create_request_log_fresh:
  "requests w name = None \<Longrightarrow>
   create_request_log u remote payload service name headers w =
     (Inr name,
      w\<lparr>requests := (requests w)(name \<mapsto>
            \<lparr>url = u, data = payload, request_headers = headers,
             integration_request_service = service, is_remote_request = remote,
             req_status = Pending, req_output = None, req_error = None\<rparr>),
        trace := trace w @ [RequestLogCreated name]\<rparr>)"
  by (simp add: create_request_log_def)

lemma make_b2c_payment_request_reached:
  assumes a: "obtain_token ev rd c w = (Inr (), c1, w1)"
    and f: "requests w (b2c_OriginatorConversationID rd) = None"
  shows "make_b2c_payment_request ev rd c w =
     post_payment ev (saf_url c) (payload_of ev rd) (headers_of c1)
       (c1\<lparr>integration_request := Some (b2c_OriginatorConversationID rd)\<rparr>)
       (w1\<lparr>requests := (requests w)(b2c_OriginatorConversationID rd \<mapsto>
            \<lparr>url = saf_url c, data = payload_of ev rd, request_headers = headers_of c1,
             integration_request_service = ''Mpesa'', is_remote_request = 1,
             req_status = Pending, req_output = None, req_error = None\<rparr>),
          trace := trace w1 @ [RequestLogCreated (b2c_OriginatorConversationID rd)]\<rparr>)"
proof -
  from obtain_token_frame[OF a] have fr: "requests w1 = requests w" "base_url c1 = base_url c"
    by simp_all
  then have s: "saf_url c1 = saf_url c" by (simp add: saf_url_def)
  from f fr have f1: "requests w1 (b2c_OriginatorConversationID rd) = None" by simp
  show ?thesis
    by (simp add: make_b2c_payment_request_def a Let_def create_request_log_fresh[OF f1] s fr)
qed

lemma make_b2c_payment_request_frame:
  assumes "make_b2c_payment_request ev rd c w = (r, c', w')"
  shows "observers c' = observers c"
proof (cases "obtain_token ev rd c w")
  case (fields r1 c1 w1)
  from obtain_token_frame[OF fields] have o: "observers c1 = observers c" by simp
  show ?thesis
  proof (cases r1)
    case (Inl x)
    with assms fields o show ?thesis by (simp add: make_b2c_payment_request_def)
  next
    case (Inr u)
    show ?thesis
    proof (cases "create_request_log (saf_url c1) 1 (payload_of ev rd) ''Mpesa''
                     (b2c_OriginatorConversationID rd) (headers_of c1) w1")
      case (Pair r2 w2)
      show ?thesis
      proof (cases r2)
        case (Inl x)
        with assms fields Inr Pair o show ?thesis
          by (simp add: make_b2c_payment_request_def Let_def)
      next
        case (Inr name)
        with assms fields \<open>r1 = Inr u\<close> Pair
        have "post_payment ev (saf_url c1) (payload_of ev rd) (headers_of c1)
                (c1\<lparr>integration_request := Some name\<rparr>) w2 = (r, c', w')"
          by (simp add: make_b2c_payment_request_def Let_def)
        from post_payment_frame[OF this] o show ?thesis by simp
      qed
    qed
  qed
qed

lemma make_b2c_payment_request_events:
  assumes obs: "set (observers c) \<subseteq> {ErrorObserver}"
    and tok: "obtain_token ev rd c w = (r1, c1, w1)"
    and run: "make_b2c_payment_request ev rd c w = (r, c', w')"
  shows "\<exists>evs. trace w' = trace w1 @ evs \<and>
           set evs \<subseteq> {RequestLogCreated (b2c_OriginatorConversationID rd),
                        HttpPost (saf_url c) (payload_of ev rd) (headers_of c1)}
         \<and> authentication_token c' = authentication_token c1"
proof -
  from obtain_token_frame[OF tok] have o: "observers c1 = observers c" "base_url c1 = base_url c"
    by simp_all
  then have s: "saf_url c1 = saf_url c" by (simp add: saf_url_def)
  show ?thesis
  proof (cases r1)
    case (Inl x)
    with run tok show ?thesis by (simp add: make_b2c_payment_request_def)
  next
    case (Inr u)
    show ?thesis
    proof (cases "requests w1 (b2c_OriginatorConversationID rd)")
      case (Some doc)
      with run tok Inr show ?thesis
        by (simp add: make_b2c_payment_request_def Let_def create_request_log_def)
    next
      case None
      let ?w2 = "w1\<lparr>requests := (requests w1)(b2c_OriginatorConversationID rd \<mapsto>
            \<lparr>url = saf_url c, data = payload_of ev rd, request_headers = headers_of c1,
             integration_request_service = ''Mpesa'', is_remote_request = 1,
             req_status = Pending, req_output = None, req_error = None\<rparr>),
          trace := trace w1 @ [RequestLogCreated (b2c_OriginatorConversationID rd)]\<rparr>"
      let ?c2 = "c1\<lparr>integration_request := Some (b2c_OriginatorConversationID rd)\<rparr>"
      from run tok Inr None s
      have p: "post_payment ev (saf_url c) (payload_of ev rd) (headers_of c1) ?c2 ?w2 = (r, c', w')"
        by (simp add: make_b2c_payment_request_def Let_def create_request_log_def)
      have "set (observers ?c2) \<subseteq> {ErrorObserver}" using obs o by simp
      from post_payment_trace[OF this p] post_payment_frame[OF p]
      show ?thesis by simp
    qed
  qed
qed

section \<open>Lemmas on sequences of operations\<close>

lemma perform_observers:
  "\<exists>new. observers (fst (perform x s)) = observers (fst s) @ new"
proof (cases s)
  case (Pair c w)
  show ?thesis
  proof (cases x)
    case (Attach ob)
    with Pair show ?thesis by (simp add: attach_def)
  next
    case Notify
    with Pair show ?thesis by simp
  next
    case (Authenticate ev setting)
    obtain r c' w' where a: "authenticate ev setting c w = (r, c', w')"
      by (cases "authenticate ev setting c w")
    from authenticate_frame[OF a] a Pair Authenticate show ?thesis by simp
  next
    case (MakeB2CPaymentRequest ev rd)
    obtain r c' w' where a: "make_b2c_payment_request ev rd c w = (r, c', w')"
      by (cases "make_b2c_payment_request ev rd c w")
    from make_b2c_payment_request_frame[OF a] a Pair MakeB2CPaymentRequest show ?thesis by simp
  qed
qed

lemma perform_all_observers:
  "\<exists>new. observers (fst (perform_all xs s)) = observers (fst s) @ new"
proof (induction xs arbitrary: s)
  case Nil
  show ?case by simp
next
  case (Cons x xs)
  obtain n1 where 1: "observers (fst (perform x s)) = observers (fst s) @ n1"
    using perform_observers by blast
  obtain n2 where 2: "observers (fst (perform_all xs (perform x s))) = observers (fst (perform x s)) @ n2"
    using Cons.IH by blast
  from 1 2 show ?case by simp
qed

section \<open>The callback handler and the record update\<close>

text \<open>
  Claim C10. Every call of \<^verbatim>\<open>update_integration_request\<close> on an existing record
  overwrites all three of status, output and error with its arguments, an omitted one being
  \<^verbatim>\<open>None\<close>; so the \<^verbatim>\<open>ErrorObserver\<close>, which passes only status and error, sets
  the record's output to \<^verbatim>\<open>None\<close>, whatever output was stored before.
\<close>

theorem update_integration_request_overwrites:
  assumes doc: "requests w n = Some doc"
  shows "update_integration_request (Some n) st out err w =
           (Inr (), w\<lparr>requests := (requests w)(n \<mapsto>
                        doc\<lparr>req_status := st, req_error := err, req_output := out\<rparr>)\<rparr>)
       \<and> (truthy (Some e) \<longrightarrow>
            requests (snd (update ErrorObserver (Some e) (Some n) w)) n =
              Some (doc\<lparr>req_status := Failed, req_error := Some (py_str e), req_output := None\<rparr>))"
  using doc by (simp add: update_integration_request_found update_ErrorObserver_truthy del: update.simps)

text \<open>
  The record X was marked Failed by a callback, which stored its envelope as output; a
  transport error reported afterwards leaves the output empty.
\<close>

theorem update_integration_request_overwrites_witness:
  "requests stored_output_world ''X'' =
     Some (pending_doc\<lparr>req_status := Failed, req_error := Some ''Insufficient funds'',
                       req_output := Some insufficient_funds\<rparr>)
   \<and> map_option req_output
        (requests (snd (update ErrorObserver (Some (ErrExc (ConnectionError ''refused''))) (Some ''X'')
                          stored_output_world)) ''X'') = Some None
   \<and> map_option req_status
        (requests (snd (update_integration_request (Some ''X'') Completed None None stored_output_world)) ''X'')
       = Some Completed"
proof -
  let ?doc = "pending_doc\<lparr>req_status := Failed, req_error := Some ''Insufficient funds'',
                       req_output := Some insufficient_funds\<rparr>"
  have d: "requests stored_output_world ''X'' = Some ?doc"
    by (simp add: stored_output_world_def pending_world_def)
  have t: "truthy (Some (ErrExc (ConnectionError ''refused'')))" by simp
  from update_integration_request_overwrites[OF d, of Completed None None "ErrExc (ConnectionError ''refused'')"] t d
  show ?thesis by simp
qed

text \<open>
  Claim C2, as amended. For every result envelope received by the callback handler: if
  \<open>ResultCode \<noteq> 0\<close>, the existing IntegrationRequest keyed by
  \<open>OriginatorConversationID\<close> is marked Failed with the full envelope stored as output and
  \<open>ResultDesc\<close> as error; if \<open>ResultCode = 0\<close>, the handler changes nothing, and no
  record is marked Completed.
\<close>

theorem results_callback_url_marks_failed:
  "(ResultCode result \<noteq> 0 \<longrightarrow> requests w (OriginatorConversationID result) = Some doc \<longrightarrow>
     results_callback_url result w =
       (Inr (), w\<lparr>requests := (requests w)(OriginatorConversationID result \<mapsto>
          doc\<lparr>req_status := Failed, req_error := Some (ResultDesc result),
              req_output := Some result\<rparr>)\<rparr>))
   \<and> (ResultCode result = 0 \<longrightarrow> results_callback_url result w = (Inr (), w))"
  by (simp add: results_callback_url_def update_integration_request_def)

text \<open>
  The scenario of the specification: result code 1, "Insufficient funds", for the record X.
\<close>

theorem results_callback_url_marks_failed_witness:
  "results_callback_url insufficient_funds pending_world =
     (Inr (), pending_world\<lparr>requests := [''X'' \<mapsto>
        pending_doc\<lparr>req_status := Failed, req_error := Some ''Insufficient funds'',
                    req_output := Some insufficient_funds\<rparr>]\<rparr>)
   \<and> results_callback_url processed pending_world = (Inr (), pending_world)"
proof -
  have a: "ResultCode insufficient_funds \<noteq> 0" by (simp add: insufficient_funds_def)
  have b: "requests pending_world (OriginatorConversationID insufficient_funds) = Some pending_doc"
    by (simp add: insufficient_funds_def pending_world_def)
  have c: "ResultCode processed = 0" by (simp add: processed_def)
  from results_callback_url_marks_failed[of insufficient_funds pending_world pending_doc] a b
  have 1: "results_callback_url insufficient_funds pending_world =
       (Inr (), pending_world\<lparr>requests :=
          (requests pending_world)(OriginatorConversationID insufficient_funds \<mapsto>
            pending_doc\<lparr>req_status := Failed, req_error := Some (ResultDesc insufficient_funds),
                        req_output := Some insufficient_funds\<rparr>)\<rparr>)"
    by blast
  from results_callback_url_marks_failed[of processed pending_world pending_doc] c
  have 2: "results_callback_url processed pending_world = (Inr (), pending_world)" by blast
  show ?thesis using 1 2 by (simp add: insufficient_funds_def pending_world_def)
qed

text \<open>
  The claim as stated fails: a callback with result code 0 for the Pending record X leaves
  it Pending, not Completed, and stores no output.
\<close>

theorem results_callback_url_success_counterexample:
  "ResultCode processed = 0
   \<and> OriginatorConversationID processed = ''X''
   \<and> requests pending_world ''X'' = Some pending_doc
   \<and> requests (snd (results_callback_url processed pending_world)) ''X'' = Some pending_doc
   \<and> req_status pending_doc = Pending
   \<and> req_output pending_doc = None"
  by (simp add: results_callback_url_def processed_def pending_world_def pending_doc_def)

text \<open>
  Claim C8, as amended. For every IntegrationRequest record and every two successive
  invocations of the callback handler with the same \<open>OriginatorConversationID\<close>: when
  the second invocation has \<open>ResultCode \<noteq> 0\<close>, the final record has the second
  invocation's status, output and error, whatever the first one was; when the second has
  \<open>ResultCode = 0\<close>, it changes nothing and the record stays as the first left it.
\<close>

theorem results_callback_url_twice:
  assumes same: "OriginatorConversationID r1 = OriginatorConversationID r2"
    and doc: "requests w (OriginatorConversationID r1) = Some doc"
    and first: "results_callback_url r1 w = (x1, w1)"
    and second: "results_callback_url r2 w1 = (x2, w2)"
  shows "(ResultCode r2 \<noteq> 0 \<longrightarrow>
            x2 = Inr () \<and>
            requests w2 (OriginatorConversationID r2) =
              Some (doc\<lparr>req_status := Failed, req_error := Some (ResultDesc r2),
                        req_output := Some r2\<rparr>))
       \<and> (ResultCode r2 = 0 \<longrightarrow> x2 = Inr () \<and> w2 = w1)"
  using assms
  by (auto simp: results_callback_url_def update_integration_request_def split: if_splits)

text \<open>A delivery with result code 1 followed by one with result code 2, for the record X.\<close>

theorem results_callback_url_twice_witness:
  "requests (snd (results_callback_url timed_out (snd (results_callback_url insufficient_funds pending_world)))) ''X''
     = Some (pending_doc\<lparr>req_status := Failed, req_error := Some ''Timed out'',
                         req_output := Some timed_out\<rparr>)"
proof -
  have same: "OriginatorConversationID insufficient_funds = OriginatorConversationID timed_out"
    by (simp add: insufficient_funds_def timed_out_def)
  have doc: "requests pending_world (OriginatorConversationID insufficient_funds) = Some pending_doc"
    by (simp add: insufficient_funds_def pending_world_def)
  have code: "ResultCode timed_out \<noteq> 0" by (simp add: timed_out_def)
  from results_callback_url_twice[OF same doc surjective_pairing surjective_pairing] code
  show ?thesis by (simp add: timed_out_def)
qed

text \<open>
  The claim as stated fails: after a delivery with result code 1 and a second one, for the
  same id, with result code 0, the record still holds the first delivery's status, error and
  output.
\<close>

theorem results_callback_url_twice_counterexample:
  "OriginatorConversationID insufficient_funds = OriginatorConversationID processed
   \<and> ResultCode insufficient_funds \<noteq> ResultCode processed
   \<and> requests pending_world ''X'' = Some pending_doc
   \<and> requests (snd (results_callback_url processed
                      (snd (results_callback_url insufficient_funds pending_world)))) ''X''
       = Some (pending_doc\<lparr>req_status := Failed, req_error := Some ''Insufficient funds'',
                           req_output := Some insufficient_funds\<rparr>)"
  by (simp add: results_callback_url_def update_integration_request_def insufficient_funds_def
        processed_def pending_world_def fresh_world_def)

section \<open>The notifier and its observers\<close>

text \<open>
  Claim C5, as amended. For a connector whose first observer is the \<^verbatim>\<open>ErrorObserver\<close>
  attached at construction: when the error field is true in Python's sense (an exception, or
  a non-empty string) and the connector's integration request exists, \<^verbatim>\<open>notify\<close>
  writes exactly one log entry, marks that IntegrationRequest Failed with the stringified
  error as error text, and raises; when the error field is \<^verbatim>\<open>None\<close> or the empty
  string and all observers are ErrorObservers, it writes no log entry, changes no record and
  raises nothing; and with only ErrorObservers attached \<^verbatim>\<open>notify\<close> raises if and only
  if the error field is true.
\<close>

theorem notify_error_observer:
  assumes obs: "observers c = ErrorObserver # rest"
  shows "(\<forall>e n doc. error c = Some e \<and> truthy (Some e) \<and> integration_request c = Some n
              \<and> requests w n = Some doc \<longrightarrow>
            notify c w =
              (Inl (FrappeThrow (py_str e) DataError (Some ''HTTPError'')),
               w\<lparr>error_log := error_log w @ [(''HTTPError'', e)],
                 requests := (requests w)(n \<mapsto> doc\<lparr>req_status := Failed,
                                req_error := Some (py_str e), req_output := None\<rparr>)\<rparr>))
       \<and> (\<not> truthy (error c) \<and> set rest \<subseteq> {ErrorObserver} \<longrightarrow> notify c w = (Inr (), w))
       \<and> (set rest \<subseteq> {ErrorObserver} \<longrightarrow>
            (\<exists>x. fst (notify c w) = Inl x) = truthy (error c))"
proof (intro conjI allI impI)
  fix e n doc
  assume "error c = Some e \<and> truthy (Some e) \<and> integration_request c = Some n
            \<and> requests w n = Some doc"
  then show "notify c w =
              (Inl (FrappeThrow (py_str e) DataError (Some ''HTTPError'')),
               w\<lparr>error_log := error_log w @ [(''HTTPError'', e)],
                 requests := (requests w)(n \<mapsto> doc\<lparr>req_status := Failed,
                                req_error := Some (py_str e), req_output := None\<rparr>)\<rparr>)"
    using notify_head_ErrorObserver[OF obs] by blast
next
  assume "\<not> truthy (error c) \<and> set rest \<subseteq> {ErrorObserver}"
  then show "notify c w = (Inr (), w)"
    using obs
    by (simp add: notify_def notify_observers_falsy update_ErrorObserver_falsy del: update.simps)
next
  assume r: "set rest \<subseteq> {ErrorObserver}"
  show "(\<exists>x. fst (notify c w) = Inl x) = truthy (error c)"
  proof (cases "truthy (error c)")
    case True
    from update_ErrorObserver_raises[OF True, of "integration_request c" w]
    obtain x w1 where "update ErrorObserver (error c) (integration_request c) w = (Inl x, w1)"
      by blast
    with obs True show ?thesis by (simp add: notify_def del: update.simps)
  next
    case False
    with obs r show ?thesis
      by (simp add: notify_def notify_observers_falsy update_ErrorObserver_falsy del: update.simps)
  qed
qed

text \<open>
  A connector whose error is a refused connection and whose request is the Pending record X;
  and the connector as constructed, without error.
\<close>

theorem notify_error_observer_witness:
  "notify failed_connector pending_world =
     (Inl (FrappeThrow ''refused'' DataError (Some ''HTTPError'')),
      pending_world\<lparr>error_log := [(''HTTPError'', ErrExc (ConnectionError ''refused''))],
        requests := [''X'' \<mapsto> pending_doc\<lparr>req_status := Failed, req_error := Some ''refused'',
                                          req_output := None\<rparr>]\<rparr>)
   \<and> notify sandbox_connector pending_world = (Inr (), pending_world)"
proof -
  have o1: "observers failed_connector = ErrorObserver # []"
    by (simp add: failed_connector_def sandbox_connector_def MpesaB2CConnector_init_def attach_def)
  have o2: "observers sandbox_connector = ErrorObserver # []"
    by (simp add: sandbox_connector_def MpesaB2CConnector_init_def attach_def)
  have h1: "error failed_connector = Some (ErrExc (ConnectionError ''refused''))
            \<and> truthy (Some (ErrExc (ConnectionError ''refused'')))
            \<and> integration_request failed_connector = Some ''X''
            \<and> requests pending_world ''X'' = Some pending_doc"
    by (simp add: failed_connector_def pending_world_def)
  have h2: "\<not> truthy (error sandbox_connector) \<and> set [] \<subseteq> {ErrorObserver}"
    by (simp add: sandbox_connector_def MpesaB2CConnector_init_def attach_def)
  from notify_error_observer[OF o1, of pending_world] h1
  have 1: "notify failed_connector pending_world =
     (Inl (FrappeThrow (py_str (ErrExc (ConnectionError ''refused''))) DataError (Some ''HTTPError'')),
      pending_world\<lparr>error_log := error_log pending_world @ [(''HTTPError'', ErrExc (ConnectionError ''refused''))],
        requests := (requests pending_world)(''X'' \<mapsto> pending_doc\<lparr>req_status := Failed,
                        req_error := Some (py_str (ErrExc (ConnectionError ''refused''))),
                        req_output := None\<rparr>)\<rparr>)"
    by blast
  from notify_error_observer[OF o2, of pending_world] h2
  have 2: "notify sandbox_connector pending_world = (Inr (), pending_world)" by blast
  from 1 2 show ?thesis by (simp add: pending_world_def fresh_world_def)
qed

text \<open>
  The claim as stated fails: the error field may hold a string, and with the empty string
  it is set (it is not \<^verbatim>\<open>None\<close>), yet \<^verbatim>\<open>notify\<close> writes no log entry, changes
  no record and raises nothing.
\<close>

theorem notify_empty_error_counterexample:
  "error empty_error_connector = Some (ErrStr [])
   \<and> observers empty_error_connector = [ErrorObserver]
   \<and> integration_request empty_error_connector = Some ''X''
   \<and> requests pending_world ''X'' = Some pending_doc
   \<and> notify empty_error_connector pending_world = (Inr (), pending_world)"
  by (simp add: notify_def empty_error_connector_def sandbox_connector_def
        MpesaB2CConnector_init_def attach_def pending_world_def)

text \<open>
  Claim C9. A connector has, right after construction, the observer list
  \<open>[ErrorObserver]\<close>; after any sequence of public operations (attach, notify,
  authenticate, make_b2c_payment_request) its list still begins with that ErrorObserver;
  \<^verbatim>\<open>attach\<close> only appends to the list; and \<^verbatim>\<open>notify\<close> calls \<^verbatim>\<open>update\<close> on the
  observers one after the other in the order of the list, with the connector's error and
  integration request, an observer that raises ending the dispatch.
\<close>

theorem error_observer_always_attached:
  "observers (MpesaB2CConnector_init e key secret) = [ErrorObserver]
   \<and> (\<exists>rest. observers (fst (perform_all ops (MpesaB2CConnector_init e key secret, w)))
               = ErrorObserver # rest)
   \<and> attach ob c = c\<lparr>observers := observers c @ [ob]\<rparr>
   \<and> notify (c\<lparr>observers := [ob]\<rparr>) w = update ob (error c) (integration_request c) w
   \<and> notify (c\<lparr>observers := xs @ ys\<rparr>) w =
       (case notify (c\<lparr>observers := xs\<rparr>) w of
          (Inl x, w1) \<Rightarrow> (Inl x, w1)
        | (Inr u, w1) \<Rightarrow> notify (c\<lparr>observers := ys\<rparr>) w1)"
proof (intro conjI)
  show i: "observers (MpesaB2CConnector_init e key secret) = [ErrorObserver]"
    by (simp add: MpesaB2CConnector_init_def attach_def)
  obtain new where "observers (fst (perform_all ops (MpesaB2CConnector_init e key secret, w)))
      = observers (fst (MpesaB2CConnector_init e key secret, w)) @ new"
    using perform_all_observers by blast
  with i show "\<exists>rest. observers (fst (perform_all ops (MpesaB2CConnector_init e key secret, w)))
               = ErrorObserver # rest"
    by simp
  show "attach ob c = c\<lparr>observers := observers c @ [ob]\<rparr>" by (simp add: attach_def)
  show "notify (c\<lparr>observers := [ob]\<rparr>) w = update ob (error c) (integration_request c) w"
    by (simp add: notify_def split: prod.splits sum.splits)
  show "notify (c\<lparr>observers := xs @ ys\<rparr>) w =
       (case notify (c\<lparr>observers := xs\<rparr>) w of
          (Inl x, w1) \<Rightarrow> (Inl x, w1)
        | (Inr u, w1) \<Rightarrow> notify (c\<lparr>observers := ys\<rparr>) w1)"
    by (auto simp: notify_def notify_observers_append split: prod.splits sum.splits)
qed

section \<open>Authentication\<close>

text \<open>
  Claim C7. For every call of \<^verbatim>\<open>authenticate\<close> where the token endpoint responds with
  a status of 400 or more, the call raises the error the specification names
  AuthenticationError: the fatal, user-facing error of \<^verbatim>\<open>frappe.throw\<close> (with its
  default class), whose message names the setting; and no AccessToken is persisted: the token
  table is unchanged.
\<close>

theorem authenticate_failure:
  assumes "auth_response ev = GetResponse status_code body" and "400 \<le> status_code"
  shows "\<exists>c' w'. authenticate ev setting c w =
            (Inl (FrappeThrow
                   (''Can't get token with provided Credentials for setting: <b>'' @ setting @ ''</b>'')
                   ValidationError (Some ''Error'')), c', w')
         \<and> tokens w' = tokens w"
  using assms by (simp add: authenticate_status_error)

text \<open>The token endpoint answers 401 for the setting S, with one token already stored.\<close>

theorem authenticate_failure_witness:
  "fst (authenticate env_auth_denied ''S'' sandbox_connector cached_world) =
     Inl (FrappeThrow ''Can't get token with provided Credentials for setting: <b>S</b>''
            ValidationError (Some ''Error''))
   \<and> tokens (snd (snd (authenticate env_auth_denied ''S'' sandbox_connector cached_world)))
       = tokens cached_world"
proof -
  have a: "auth_response env_auth_denied = GetResponse 401 BodyNotJson"
    by (simp add: env_auth_denied_def env_success_def)
  have b: "(400::int) \<le> 401" by simp
  from authenticate_failure[OF a b, of "''S''" sandbox_connector cached_world]
  show ?thesis by auto
qed




section \<open>The payment request\<close>

text \<open>
  Claim C1. Let the observers of the connector be ErrorObservers. For every setting with a
  cached AccessToken whose expiry time is later than the clock's reading,
  \<^verbatim>\<open>make_b2c_payment_request\<close> uses the token of such a document (it is the connector's
  token afterwards and the bearer of the POST) and makes no call to the authentication
  endpoint; for every setting with no cached token or only expired ones, it calls the
  authentication endpoint exactly once, with the \<open>ConsumerKey\<close> and
  \<open>ConsumerSecret\<close> of the request, before anything else, hence before the payment is
  submitted.
\<close>

theorem make_b2c_payment_request_token_policy:
  assumes obs: "set (observers c) \<subseteq> {ErrorObserver}"
    and run: "make_b2c_payment_request ev rd c w = (r, c', w')"
  shows "((\<exists>d\<in>set (tokens w). valid_token (Setting rd) (clock w (clock_reads w)) d) \<longrightarrow>
           (\<exists>d\<in>set (tokens w). valid_token (Setting rd) (clock w (clock_reads w)) d \<and>
              authentication_token c' = Some (access_token d) \<and>
              (\<exists>evs. trace w' = trace w @ evs \<and>
                 set evs \<subseteq> {RequestLogCreated (b2c_OriginatorConversationID rd),
                              HttpPost (saf_url c) (payload_of ev rd)
                                [(''Authorization'', ''Bearer '' @ access_token d),
                                 (''Content-Type'', ''application/json'')]})))
       \<and> (\<not> (\<exists>d\<in>set (tokens w). valid_token (Setting rd) (clock w (clock_reads w)) d) \<longrightarrow>
           (\<exists>evs. trace w' = trace w @
                      HttpGet (authenticate_url c) (Some (ConsumerKey rd)) (Some (ConsumerSecret rd)) # evs
                  \<and> (\<forall>u k s. HttpGet u k s \<notin> set evs)))"
proof (cases "find (valid_token (Setting rd) (clock w (clock_reads w))) (tokens w)")
  case None
  then have no: "\<not> (\<exists>d\<in>set (tokens w). valid_token (Setting rd) (clock w (clock_reads w)) d)"
    by (simp add: find_None_iff)
  obtain r1 c1 w1 where tok: "obtain_token ev rd c w = (r1, c1, w1)"
    by (cases "obtain_token ev rd c w")
  from obtain_token_fetch[OF None tok]
  have t1: "trace w1 = trace w @
              [HttpGet (authenticate_url c) (Some (ConsumerKey rd)) (Some (ConsumerSecret rd))]" .
  from make_b2c_payment_request_events[OF obs tok run] obtain evs where
    e: "trace w' = trace w1 @ evs"
       "set evs \<subseteq> {RequestLogCreated (b2c_OriginatorConversationID rd),
                    HttpPost (saf_url c) (payload_of ev rd) (headers_of c1)}"
    by blast
  from e(2) have "\<forall>u k s. HttpGet u k s \<notin> set evs" by auto
  with e(1) t1 no show ?thesis by simp
next
  case (Some d)
  then have d: "d \<in> set (tokens w)" "valid_token (Setting rd) (clock w (clock_reads w)) d"
    by (auto simp: find_Some_iff in_set_conv_nth)
  let ?c1 = "c\<lparr>authentication_token := Some (access_token d)\<rparr>"
  let ?w1 = "w\<lparr>clock_reads := Suc (clock_reads w)\<rparr>"
  have tok: "obtain_token ev rd c w = (Inr (), ?c1, ?w1)" by (rule obtain_token_cached[OF Some])
  from make_b2c_payment_request_events[OF obs tok run] obtain evs where
    e: "trace w' = trace ?w1 @ evs"
       "set evs \<subseteq> {RequestLogCreated (b2c_OriginatorConversationID rd),
                    HttpPost (saf_url c) (payload_of ev rd) (headers_of ?c1)}"
       "authentication_token c' = authentication_token ?c1"
    by blast
  have h: "headers_of ?c1 = [(''Authorization'', ''Bearer '' @ access_token d),
                             (''Content-Type'', ''application/json'')]"
    by (simp add: headers_of_def format_opt_def)
  from e h d show ?thesis by auto
qed

text \<open>
  The same request on a world without tokens, where the first call made is the GET with the
  request's credentials and no other GET follows, and on a world with a token of the
  setting that is still valid, where no GET is made.
\<close>

theorem make_b2c_payment_request_token_policy_witness:
  "(\<exists>evs. trace (snd (snd (make_b2c_payment_request env_success example_request sandbox_connector
                              fresh_world))) =
       HttpGet ''https://sandbox.safaricom.co.ke/oauth/v1/generate?grant_type=client_credentials''
               (Some ''key'') (Some ''secret'') # evs
     \<and> (\<forall>u k s. HttpGet u k s \<notin> set evs))
   \<and> (\<forall>u k s. HttpGet u k s \<notin>
         set (trace (snd (snd (make_b2c_payment_request env_success example_request sandbox_connector
                                 cached_world)))))"
proof -
  have obs: "set (observers sandbox_connector) \<subseteq> {ErrorObserver}"
    by (simp add: sandbox_connector_def MpesaB2CConnector_init_def attach_def)
  have none: "\<not> (\<exists>d\<in>set (tokens fresh_world).
                  valid_token (Setting example_request) (clock fresh_world (clock_reads fresh_world)) d)"
    by (simp add: fresh_world_def)
  have some: "\<exists>d\<in>set (tokens cached_world).
                  valid_token (Setting example_request) (clock cached_world (clock_reads cached_world)) d"
    by (simp add: cached_world_def fresh_world_def valid_token_def example_request_def)
  have u: "authenticate_url sandbox_connector =
             ''https://sandbox.safaricom.co.ke/oauth/v1/generate?grant_type=client_credentials''"
    by (simp add: authenticate_url_def sandbox_connector_def MpesaB2CConnector_init_def attach_def
          SANDBOX_def)
  let ?f = "make_b2c_payment_request env_success example_request sandbox_connector fresh_world"
  let ?g = "make_b2c_payment_request env_success example_request sandbox_connector cached_world"
  have 1: "\<exists>evs. trace (snd (snd ?f)) =
       trace fresh_world @ HttpGet (authenticate_url sandbox_connector)
               (Some (ConsumerKey example_request)) (Some (ConsumerSecret example_request)) # evs
     \<and> (\<forall>u k s. HttpGet u k s \<notin> set evs)"
    using make_b2c_payment_request_token_policy[OF obs, of env_success example_request fresh_world
        "fst ?f" "fst (snd ?f)" "snd (snd ?f)"] none
    by simp
  have 2: "\<exists>evs. trace (snd (snd ?g)) = trace cached_world @ evs
              \<and> (\<forall>u k s. HttpGet u k s \<notin> set evs)"
    using make_b2c_payment_request_token_policy[OF obs, of env_success example_request cached_world
        "fst ?g" "fst (snd ?g)" "snd (snd ?g)"] some
    by auto
  have t: "trace fresh_world = []" "trace cached_world = []"
    by (simp_all add: fresh_world_def cached_world_def)
  from 1 2 show ?thesis by (simp add: u t example_request_def)
qed

text \<open>
  Claim C3, as amended. On a connector whose first observer is the ErrorObserver attached at
  construction, once the token is obtained and the record created: for every failure of the
  POST in \<^verbatim>\<open>make_b2c_payment_request\<close> that is a \<^verbatim>\<open>requests.ConnectionError\<close> or an
  HTTP error status (400 to 599, the \<^verbatim>\<open>requests.HTTPError\<close> of
  \<^verbatim>\<open>raise_for_status\<close>), the failure is logged, the IntegrationRequest created for the
  request is marked Failed with the error text, and the call raises an error carrying that
  text, so the record is not left Pending. Any other exception of the POST (a read timeout,
  for one) is not caught: it is raised to the caller as it is, nothing is logged, and the
  record stays Pending. In both cases the failure is raised, never swallowed.
\<close>

theorem make_b2c_payment_request_failure:
  assumes obs: "observers c = ErrorObserver # rest"
    and tok: "obtain_token ev rd c w = (Inr (), c1, w1)"
    and fresh: "requests w (b2c_OriginatorConversationID rd) = None"
  shows "((payment_response ev = PostConnectionError m \<and> e = ConnectionError m
             \<or> (\<exists>st body. payment_response ev = PostResponse st m body \<and> 400 \<le> st \<and> st < 600
                   \<and> e = HTTPError m)) \<longrightarrow>
          (\<exists>c' w' doc.
             make_b2c_payment_request ev rd c w =
               (Inl (FrappeThrow m DataError (Some ''HTTPError'')), c', w')
           \<and> error c' = Some (ErrExc e)
           \<and> error_log w' = error_log w @ [(''HTTPError'', ErrExc e)]
           \<and> requests w' (b2c_OriginatorConversationID rd) = Some doc
           \<and> req_status doc = Failed \<and> req_error doc = Some m))
       \<and> (payment_response ev = PostOtherException m \<longrightarrow>
          (\<exists>c' w' doc.
             make_b2c_payment_request ev rd c w = (Inl (OtherRequestException m), c', w')
           \<and> error_log w' = error_log w
           \<and> requests w' (b2c_OriginatorConversationID rd) = Some doc
           \<and> req_status doc = Pending \<and> req_error doc = None))"
proof (intro conjI impI)
  let ?n = "b2c_OriginatorConversationID rd"
  let ?doc = "\<lparr>url = saf_url c, data = payload_of ev rd, request_headers = headers_of c1,
             integration_request_service = ''Mpesa'', is_remote_request = 1,
             req_status = Pending, req_output = None, req_error = None\<rparr>"
  let ?c2 = "c1\<lparr>integration_request := Some ?n\<rparr>"
  let ?w2 = "w1\<lparr>requests := (requests w)(?n \<mapsto> ?doc), trace := trace w1 @ [RequestLogCreated ?n]\<rparr>"
  from obtain_token_frame[OF tok]
  have fr: "observers c1 = observers c" "error_log w1 = error_log w" by simp_all
  have m: "make_b2c_payment_request ev rd c w =
             post_payment ev (saf_url c) (payload_of ev rd) (headers_of c1) ?c2 ?w2"
    by (rule make_b2c_payment_request_reached[OF tok fresh])
  {
    assume fail: "payment_response ev = PostConnectionError m \<and> e = ConnectionError m
             \<or> (\<exists>st body. payment_response ev = PostResponse st m body \<and> 400 \<le> st \<and> st < 600
                   \<and> e = HTTPError m)"
    have "post_payment ev (saf_url c) (payload_of ev rd) (headers_of c1) ?c2 ?w2 =
       (Inl (FrappeThrow m DataError (Some ''HTTPError'')),
        ?c2\<lparr>error := Some (ErrExc e)\<rparr>,
        ?w2\<lparr>trace := trace ?w2 @ [HttpPost (saf_url c) (payload_of ev rd) (headers_of c1)],
          error_log := error_log ?w2 @ [(''HTTPError'', ErrExc e)],
          requests := (requests ?w2)(?n \<mapsto>
                         ?doc\<lparr>req_status := Failed, req_error := Some m, req_output := None\<rparr>)\<rparr>)"
      by (rule post_payment_failure[where rest = rest and n = "?n", OF _ _ _ fail])
         (simp_all add: fr obs)
    with m fr show "\<exists>c' w' doc.
             make_b2c_payment_request ev rd c w =
               (Inl (FrappeThrow m DataError (Some ''HTTPError'')), c', w')
           \<and> error c' = Some (ErrExc e)
           \<and> error_log w' = error_log w @ [(''HTTPError'', ErrExc e)]
           \<and> requests w' (b2c_OriginatorConversationID rd) = Some doc
           \<and> req_status doc = Failed \<and> req_error doc = Some m"
      by simp
  }
  {
    assume other: "payment_response ev = PostOtherException m"
    from m fr post_payment_uncaught[OF other]
    show "\<exists>c' w' doc.
             make_b2c_payment_request ev rd c w = (Inl (OtherRequestException m), c', w')
           \<and> error_log w' = error_log w
           \<and> requests w' (b2c_OriginatorConversationID rd) = Some doc
           \<and> req_status doc = Pending \<and> req_error doc = None"
      by simp
  }
qed

text \<open>
  The scenario of the specification: the submission returns HTTP 500. The token is fetched
  first (nothing is cached), the record X is created, and the POST fails.
\<close>

theorem make_b2c_payment_request_failure_witness:
  "fst (make_b2c_payment_request env_http500 example_request sandbox_connector fresh_world) =
     Inl (FrappeThrow ''500 Server Error'' DataError (Some ''HTTPError''))
   \<and> error_log (snd (snd (make_b2c_payment_request env_http500 example_request sandbox_connector
                            fresh_world))) =
       [(''HTTPError'', ErrExc (HTTPError ''500 Server Error''))]
   \<and> map_option req_status
        (requests (snd (snd (make_b2c_payment_request env_http500 example_request sandbox_connector
                               fresh_world))) ''X'') = Some Failed
   \<and> map_option req_error
        (requests (snd (snd (make_b2c_payment_request env_http500 example_request sandbox_connector
                               fresh_world))) ''X'') = Some (Some ''500 Server Error'')
   \<and> fst (make_b2c_payment_request env_read_timeout example_request sandbox_connector fresh_world) =
       Inl (OtherRequestException ''Read timed out'')"
proof -
  let ?t = "obtain_token env_http500 example_request sandbox_connector fresh_world"
  let ?u = "obtain_token env_read_timeout example_request sandbox_connector fresh_world"
  have obs: "observers sandbox_connector = ErrorObserver # []"
    by (simp add: sandbox_connector_def MpesaB2CConnector_init_def attach_def)
  have "fst ?t = Inr ()"
    by (simp add: obtain_token_def now_def authenticate_def save_access_token_def Let_def
          env_http500_def env_success_def example_request_def fresh_world_def)
  then have tok: "?t = (Inr (), fst (snd ?t), snd (snd ?t))"
    by (metis surjective_pairing)
  have "fst ?u = Inr ()"
    by (simp add: obtain_token_def now_def authenticate_def save_access_token_def Let_def
          env_read_timeout_def env_success_def example_request_def fresh_world_def)
  then have tok': "?u = (Inr (), fst (snd ?u), snd (snd ?u))"
    by (metis surjective_pairing)
  have fresh: "requests fresh_world (b2c_OriginatorConversationID example_request) = None"
    by (simp add: fresh_world_def)
  have fail: "payment_response env_http500 = PostConnectionError ''500 Server Error''
                \<and> HTTPError ''500 Server Error'' = ConnectionError ''500 Server Error''
             \<or> (\<exists>st body. payment_response env_http500 = PostResponse st ''500 Server Error'' body
                   \<and> 400 \<le> st \<and> st < 600
                   \<and> HTTPError ''500 Server Error'' = HTTPError ''500 Server Error'')"
    by (simp add: env_http500_def)
  have other: "payment_response env_read_timeout = PostOtherException ''Read timed out''"
    by (simp add: env_read_timeout_def)
  have el: "error_log fresh_world = []" by (simp add: fresh_world_def)
  have n: "b2c_OriginatorConversationID example_request = ''X''"
    by (simp add: example_request_def)
  from make_b2c_payment_request_failure[OF obs tok fresh, of "''500 Server Error''"
         "HTTPError ''500 Server Error''"] fail
  have 1: "\<exists>c' w' doc.
             make_b2c_payment_request env_http500 example_request sandbox_connector fresh_world =
               (Inl (FrappeThrow ''500 Server Error'' DataError (Some ''HTTPError'')), c', w')
           \<and> error c' = Some (ErrExc (HTTPError ''500 Server Error''))
           \<and> error_log w' = error_log fresh_world @ [(''HTTPError'', ErrExc (HTTPError ''500 Server Error''))]
           \<and> requests w' (b2c_OriginatorConversationID example_request) = Some doc
           \<and> req_status doc = Failed \<and> req_error doc = Some ''500 Server Error''"
    by blast
  from make_b2c_payment_request_failure[OF obs tok' fresh, of "''Read timed out''"] other
  have 2: "\<exists>c' w' doc.
             make_b2c_payment_request env_read_timeout example_request sandbox_connector fresh_world =
               (Inl (OtherRequestException ''Read timed out''), c', w')
           \<and> error_log w' = error_log fresh_world
           \<and> requests w' (b2c_OriginatorConversationID example_request) = Some doc
           \<and> req_status doc = Pending \<and> req_error doc = None"
    by blast
  from 1 2 el n show ?thesis by auto
qed

text \<open>
  The claim as stated fails: when the POST ends in a read timeout, which is neither of the
  two classes the handler names, the call raises that exception, the error log stays empty
  and the record X created for the request is left Pending.
\<close>

theorem make_b2c_payment_request_timeout_counterexample:
  "payment_response env_read_timeout = PostOtherException ''Read timed out''
   \<and> observers sandbox_connector = [ErrorObserver]
   \<and> fst (make_b2c_payment_request env_read_timeout example_request sandbox_connector fresh_world) =
       Inl (OtherRequestException ''Read timed out'')
   \<and> error_log (snd (snd (make_b2c_payment_request env_read_timeout example_request
                            sandbox_connector fresh_world))) = []
   \<and> map_option req_status
        (requests (snd (snd (make_b2c_payment_request env_read_timeout example_request
                               sandbox_connector fresh_world))) ''X'') = Some Pending"
proof -
  let ?u = "obtain_token env_read_timeout example_request sandbox_connector fresh_world"
  have "fst ?u = Inr ()"
    by (simp add: obtain_token_def now_def authenticate_def save_access_token_def Let_def
          env_read_timeout_def env_success_def example_request_def fresh_world_def)
  then have tok: "?u = (Inr (), fst (snd ?u), snd (snd ?u))"
    by (metis surjective_pairing)
  have fresh: "requests fresh_world (b2c_OriginatorConversationID example_request) = None"
    by (simp add: fresh_world_def)
  have other: "payment_response env_read_timeout = PostOtherException ''Read timed out''"
    by (simp add: env_read_timeout_def)
  from obtain_token_frame[OF tok]
  have el: "error_log (snd (snd ?u)) = []" by (simp add: fresh_world_def)
  have n: "b2c_OriginatorConversationID example_request = ''X''"
    by (simp add: example_request_def)
  have obs: "observers sandbox_connector = [ErrorObserver]"
    by (simp add: sandbox_connector_def MpesaB2CConnector_init_def attach_def)
  show ?thesis
    by (simp add: make_b2c_payment_request_reached[OF tok fresh] post_payment_uncaught[OF other]
          other obs el n)
qed

text \<open>
  Claim C6. For every submission (a token was obtained, and the correlation id is not yet
  taken) where the provider returns a success response with a JSON body,
  \<^verbatim>\<open>make_b2c_payment_request\<close> returns the parsed body; before the POST it creates the
  IntegrationRequest record keyed by the request's \<open>OriginatorConversationID\<close>, with
  status Pending, storing the URL, the payload and the headers, and keeps its name in the
  connector.
\<close>

theorem make_b2c_payment_request_success:
  assumes tok: "obtain_token ev rd c w = (Inr (), c1, w1)"
    and fresh: "requests w (b2c_OriginatorConversationID rd) = None"
    and resp: "payment_response ev = PostResponse st msg (Some body)"
    and ok: "\<not> (400 \<le> st \<and> st < 600)"
  shows "make_b2c_payment_request ev rd c w =
     (Inr body,
      c1\<lparr>integration_request := Some (b2c_OriginatorConversationID rd)\<rparr>,
      w1\<lparr>requests := (requests w)(b2c_OriginatorConversationID rd \<mapsto>
            \<lparr>url = saf_url c, data = payload_of ev rd, request_headers = headers_of c1,
             integration_request_service = ''Mpesa'', is_remote_request = 1,
             req_status = Pending, req_output = None, req_error = None\<rparr>),
         trace := trace w1 @ [RequestLogCreated (b2c_OriginatorConversationID rd),
                              HttpPost (saf_url c) (payload_of ev rd) (headers_of c1)]\<rparr>)"
  by (simp add: make_b2c_payment_request_reached[OF tok fresh] post_payment_success[OF resp ok])

text \<open>
  The scenario of the specification: no cached token, authentication gives the token "abc"
  for 3600 seconds, the submission returns 200 with the body \<^verbatim>\<open>{"ConversationID":"X"}\<close>.
\<close>

theorem make_b2c_payment_request_success_witness:
  "fst (make_b2c_payment_request env_success example_request sandbox_connector fresh_world) =
     Inr (JObj [(''ConversationID'', JStr ''X'')])
   \<and> requests (snd (snd (make_b2c_payment_request env_success example_request sandbox_connector
                           fresh_world))) ''X'' =
       Some \<lparr>url = ''https://sandbox.safaricom.co.ke/mpesa/b2c/v3/paymentrequest'',
             data = ''X'',
             request_headers = [(''Authorization'', ''Bearer abc''),
                                (''Content-Type'', ''application/json'')],
             integration_request_service = ''Mpesa'', is_remote_request = 1,
             req_status = Pending, req_output = None, req_error = None\<rparr>
   \<and> trace (snd (snd (make_b2c_payment_request env_success example_request sandbox_connector
                        fresh_world))) =
       [HttpGet ''https://sandbox.safaricom.co.ke/oauth/v1/generate?grant_type=client_credentials''
          (Some ''key'') (Some ''secret''),
        RequestLogCreated ''X'',
        HttpPost ''https://sandbox.safaricom.co.ke/mpesa/b2c/v3/paymentrequest'' ''X''
          [(''Authorization'', ''Bearer abc''), (''Content-Type'', ''application/json'')]]"
proof -
  let ?c1 = "sandbox_connector\<lparr>app_key := Some ''key'', app_secret := Some ''secret'',
                authentication_token := Some ''abc'', expires_in := Some 3600000001\<rparr>"
  let ?w1 = "fresh_world\<lparr>clock_reads := 3,
                trace := [HttpGet ''https://sandbox.safaricom.co.ke/oauth/v1/generate?grant_type=client_credentials''
                            (Some ''key'') (Some ''secret'')],
                tokens := [\<lparr>associated_settings = ''S'', access_token = ''abc'',
                            expiry_time = 3600000001, token_fetch_time = 2\<rparr>]\<rparr>"
  have tok: "obtain_token env_success example_request sandbox_connector fresh_world = (Inr (), ?c1, ?w1)"
    by (simp add: obtain_token_def now_def authenticate_def save_access_token_def Let_def
          env_success_def example_request_def fresh_world_def timedelta_seconds_def
          authenticate_url_def sandbox_connector_def MpesaB2CConnector_init_def attach_def
          SANDBOX_def numeral_3_eq_3)
  have fresh: "requests fresh_world (b2c_OriginatorConversationID example_request) = None"
    by (simp add: fresh_world_def)
  have resp: "payment_response env_success =
                PostResponse 200 ''OK'' (Some (JObj [(''ConversationID'', JStr ''X'')]))"
    by (simp add: env_success_def)
  have ok: "\<not> ((400::int) \<le> 200 \<and> (200::int) < 600)" by simp
  have s: "saf_url sandbox_connector = ''https://sandbox.safaricom.co.ke/mpesa/b2c/v3/paymentrequest''"
    by (simp add: saf_url_def sandbox_connector_def MpesaB2CConnector_init_def attach_def SANDBOX_def)
  have p: "payload_of env_success example_request = ''X''"
    by (simp add: payload_of_def env_success_def example_request_def)
  have h: "headers_of ?c1 = [(''Authorization'', ''Bearer abc''),
                             (''Content-Type'', ''application/json'')]"
    by (simp add: headers_of_def format_opt_def)
  have n: "b2c_OriginatorConversationID example_request = ''X''"
    by (simp add: example_request_def)
  from make_b2c_payment_request_success[OF tok fresh resp ok]
  show ?thesis by (simp add: s p h n fresh_world_def)
qed

end
